theory Spec2Isabelle
  imports Main
begin

section \<open>Job portal backend: job listing, search and job life cycle\<close>

text \<open>
  A shallow embedding of \<^verbatim>\<open>src/services/job.service.ts\<close> (class \<^verbatim>\<open>JobService\<close>),
  of \<^verbatim>\<open>BaseController.getPaginationParams\<close> in \<^verbatim>\<open>src/controllers/base.controller.ts\<close>
  and of the second, shorter copy of \<^verbatim>\<open>JobService.searchJobs\<close> that the repository
  also holds.

  Conventions.
  \<^item> A \<^verbatim>\<open>Date\<close> is an \<open>int\<close>: milliseconds since the epoch. The value of each
    \<^verbatim>\<open>new Date()\<close> expression is a parameter of the function that evaluates it.
  \<^item> A JavaScript \<^verbatim>\<open>number\<close> that holds a salary, a page or a limit is an \<open>int\<close>;
    \<^verbatim>\<open>NaN\<close> is \<open>None\<close> where a number may be \<^verbatim>\<open>NaN\<close>.
  \<^item> An optional property (\<^verbatim>\<open>x?: T\<close>) and a nullable column are \<open>T option\<close>.
  \<^item> A string is a list of code units below 256 (\<open>char\<close>); text with other code
    units is outside the model.
  \<^item> The store is a record of tables (lists of rows). The Prisma client calls are
    modelled by their documented meaning on that record.
  \<^item> \<^verbatim>\<open>throw new AppError(message, status)\<close> is the value \<open>Inl (AppError message status)\<close>.
\<close>

subsection \<open>Rows of the store\<close>

datatype JobStatus = DRAFT | PUBLISHED | CLOSED | EXPIRED

datatype UserRole = JOB_SEEKER | EMPLOYER | ADMIN

record Company =
  company_id :: string
  company_name :: string
  ownerId :: string

text \<open>
  A job row together with its owning company (the relation is required, and every
  query below that reads it asks for \<^verbatim>\<open>include: { company: true }\<close> or filters
  through it). \<^verbatim>\<open>JobType\<close> and \<^verbatim>\<open>ExperienceLevel\<close> are generated enums; a value is
  kept by its name.
\<close>

record Job =
  job_id :: string
  job_title :: string
  job_description :: string
  job_requirements :: "string option"
  job_responsibilities :: "string option"
  job_type :: string
  job_experienceLevel :: string
  job_salaryMin :: "int option"
  job_salaryMax :: "int option"
  job_location :: "string option"
  job_isRemote :: bool
  job_status :: JobStatus
  job_expiresAt :: "int option"
  job_updatedAt :: int
  job_categoryId :: "string option"
  job_company :: Company

record JobSkill =
  js_jobId :: string
  js_skillId :: string
  js_isRequired :: bool

record Profile =
  profile_resumeUrl :: "string option"

record User =
  user_id :: string
  user_role :: UserRole
  user_profile :: "Profile option"

record Application =
  app_jobId :: string
  app_applicantId :: string
  app_coverLetter :: "string option"
  app_resumeUrl :: "string option"
  app_status :: string

record DB =
  jobs :: "Job list"
  users :: "User list"
  applications :: "Application list"
  jobSkills :: "JobSkill list"

datatype AppError = AppError string int

subsection \<open>JavaScript helpers\<close>

text \<open>Truthiness of an optional string and of an optional number.\<close>

definition truthy_str :: "string option \<Rightarrow> bool" where
  "truthy_str s = (case s of None \<Rightarrow> False | Some x \<Rightarrow> x \<noteq> [])"

definition truthy_num :: "int option \<Rightarrow> bool" where
  "truthy_num n = (case n of None \<Rightarrow> False | Some x \<Rightarrow> x \<noteq> 0)"

text \<open>
  White space and line terminators of ECMAScript among the code units below 256: tab,
  line feed, vertical tab, form feed, carriage return, space and no-break space.
  \<^verbatim>\<open>String.prototype.trim\<close> strips them at both ends.
\<close>

definition is_space :: "char \<Rightarrow> bool" where
  "is_space c = (c = CHR '' '' \<or> c = CHR 0x09 \<or> c = CHR 0x0A \<or> c = CHR 0x0B
                 \<or> c = CHR 0x0C \<or> c = CHR 0x0D \<or> c = CHR 0xA0)"

definition trim :: "string \<Rightarrow> string" where
  "trim s = rev (dropWhile is_space (rev (dropWhile is_space s)))"

text \<open>
  \<^verbatim>\<open>{ contains: t, mode: insensitive }\<close>: \<open>t\<close> occurs in the column, letters compared
  without case (ASCII letters here). A null column matches nothing.
\<close>

definition toLower :: "char \<Rightarrow> char" where
  "toLower c = (let n = (of_char c :: nat) in if 65 \<le> n \<and> n \<le> 90 then char_of (n + 32) else c)"

fun isPrefixOf :: "'a list \<Rightarrow> 'a list \<Rightarrow> bool" where
  "isPrefixOf [] ys = True"
| "isPrefixOf (x # xs) [] = False"
| "isPrefixOf (x # xs) (y # ys) = (x = y \<and> isPrefixOf xs ys)"

fun isInfixOf :: "'a list \<Rightarrow> 'a list \<Rightarrow> bool" where
  "isInfixOf xs [] = (xs = [])"
| "isInfixOf xs (y # ys) = (isPrefixOf xs (y # ys) \<or> isInfixOf xs ys)"

definition contains_insensitive :: "string option \<Rightarrow> string \<Rightarrow> bool" where
  "contains_insensitive col t =
     (case col of None \<Rightarrow> False
      | Some s \<Rightarrow> isInfixOf (map toLower t) (map toLower s))"

text \<open>Comparison filters on a nullable number or date: a null column matches nothing.\<close>

definition gte :: "int option \<Rightarrow> int \<Rightarrow> bool" where
  "gte col v = (case col of None \<Rightarrow> False | Some x \<Rightarrow> v \<le> x)"

definition lte :: "int option \<Rightarrow> int \<Rightarrow> bool" where
  "lte col v = (case col of None \<Rightarrow> False | Some x \<Rightarrow> x \<le> v)"

definition gt :: "int option \<Rightarrow> int \<Rightarrow> bool" where
  "gt col v = (case col of None \<Rightarrow> False | Some x \<Rightarrow> v < x)"

subsection \<open>The where clause of a job query\<close>

text \<open>
  The conditions that appear as elements of an \<^verbatim>\<open>OR\<close> or \<^verbatim>\<open>AND\<close> array in
  \<^verbatim>\<open>getAllJobs\<close> and \<^verbatim>\<open>searchJobs\<close>.
\<close>

datatype JobCond =
    ExpiresAt_null
  | ExpiresAt_gt int
  | Title_contains string
  | Description_contains string
  | Requirements_contains string
  | Responsibilities_contains string
  | Company_name_contains string
  | SalaryMin_gte int
  | SalaryMax_gte int
  | SalaryMax_lte int
  | Or "JobCond list"

text \<open>
  The object \<^verbatim>\<open>whereClause\<close>: one field per key the code ever sets, \<open>None\<close> while the
  key is absent.
\<close>

record WhereClause =
  w_status :: "JobStatus option"
  w_OR :: "JobCond list option"
  w_AND :: "JobCond list option"
  w_categoryId :: "string option"
  w_type :: "string option"
  w_location :: "string option"
  w_isRemote :: "bool option"
  w_experienceLevel :: "string option"
  w_jobSkills :: "string list option"

fun eval_cond :: "Job \<Rightarrow> JobCond \<Rightarrow> bool" and eval_any :: "Job \<Rightarrow> JobCond list \<Rightarrow> bool" where
  "eval_cond j ExpiresAt_null = (job_expiresAt j = None)"
| "eval_cond j (ExpiresAt_gt d) = gt (job_expiresAt j) d"
| "eval_cond j (Title_contains t) = contains_insensitive (Some (job_title j)) t"
| "eval_cond j (Description_contains t) = contains_insensitive (Some (job_description j)) t"
| "eval_cond j (Requirements_contains t) = contains_insensitive (job_requirements j) t"
| "eval_cond j (Responsibilities_contains t) = contains_insensitive (job_responsibilities j) t"
| "eval_cond j (Company_name_contains t) =
     contains_insensitive (Some (company_name (job_company j))) t"
| "eval_cond j (SalaryMin_gte v) = gte (job_salaryMin j) v"
| "eval_cond j (SalaryMax_gte v) = gte (job_salaryMax j) v"
| "eval_cond j (SalaryMax_lte v) = lte (job_salaryMax j) v"
| "eval_cond j (Or cs) = eval_any j cs"
| "eval_any j [] = False"
| "eval_any j (c # cs) = (eval_cond j c \<or> eval_any j cs)"

text \<open>An \<^verbatim>\<open>AND\<close> array holds when each element holds.\<close>

fun eval_all :: "Job \<Rightarrow> JobCond list \<Rightarrow> bool" where
  "eval_all j [] = True"
| "eval_all j (c # cs) = (eval_cond j c \<and> eval_all j cs)"

text \<open>\<^verbatim>\<open>jobSkills: { some: { skillId: { in: skills } } }\<close>.\<close>

definition has_some_skill :: "DB \<Rightarrow> Job \<Rightarrow> string list \<Rightarrow> bool" where
  "has_some_skill db j skills =
     list_ex (\<lambda>r. js_jobId r = job_id j \<and> List.member skills (js_skillId r)) (jobSkills db)"

text \<open>A where object admits a row when every key that is present holds of the row.\<close>

definition eval_where :: "DB \<Rightarrow> WhereClause \<Rightarrow> Job \<Rightarrow> bool" where
  "eval_where db w j =
     ((case w_status w of None \<Rightarrow> True | Some s \<Rightarrow> job_status j = s)
      \<and> (case w_OR w of None \<Rightarrow> True | Some cs \<Rightarrow> eval_any j cs)
      \<and> (case w_AND w of None \<Rightarrow> True | Some cs \<Rightarrow> eval_all j cs)
      \<and> (case w_categoryId w of None \<Rightarrow> True | Some c \<Rightarrow> job_categoryId j = Some c)
      \<and> (case w_type w of None \<Rightarrow> True | Some t \<Rightarrow> job_type j = t)
      \<and> (case w_location w of None \<Rightarrow> True | Some l \<Rightarrow> contains_insensitive (job_location j) l)
      \<and> (case w_isRemote w of None \<Rightarrow> True | Some b \<Rightarrow> job_isRemote j = b)
      \<and> (case w_experienceLevel w of None \<Rightarrow> True | Some e \<Rightarrow> job_experienceLevel j = e)
      \<and> (case w_jobSkills w of None \<Rightarrow> True | Some ss \<Rightarrow> has_some_skill db j ss))"

subsection \<open>Filters and ordering (\<^verbatim>\<open>JobFilters\<close> of \<^verbatim>\<open>src/types/api.types.ts\<close>)\<close>

datatype SortOrder = asc | desc

record JobFilters =
  search :: "string option"
  category :: "string option"
  type :: "string option"
  location :: "string option"
  salaryMin :: "int option"
  salaryMax :: "int option"
  isRemote :: "bool option"
  experienceLevel :: "string option"
  skills :: "string list option"
  sortBy :: "string option"
  sortOrder :: "SortOrder option"

text \<open>
  The object \<^verbatim>\<open>orderBy\<close>: \<^verbatim>\<open>{ [key]: direction }\<close> on a job attribute,
  \<^verbatim>\<open>{ company: { name: direction } }\<close>, or the empty object \<^verbatim>\<open>{}\<close>.
\<close>

datatype OrderBy = OrderBy_field string SortOrder | OrderBy_company_name SortOrder | OrderBy_empty

subsection \<open>\<^verbatim>\<open>JobService.searchJobs\<close>: the where clause\<close>

text \<open>The baseline object literal the where clause starts from.\<close>

definition baseline_where :: "int \<Rightarrow> WhereClause" where
  "baseline_where now =
     \<lparr> w_status = Some PUBLISHED,
       w_OR = Some [ExpiresAt_null, ExpiresAt_gt now],
       w_AND = None, w_categoryId = None, w_type = None, w_location = None,
       w_isRemote = None, w_experienceLevel = None, w_jobSkills = None \<rparr>"

text \<open>\<^verbatim>\<open>if (search && search.trim().length > 0) { whereClause.AND = [ { OR: [...] } ] }\<close>\<close>

definition add_search :: "JobFilters \<Rightarrow> WhereClause \<Rightarrow> WhereClause" where
  "add_search filters w =
     (if truthy_str (search filters) \<and> 0 < length (trim (the (search filters))) then
        (let searchTerm = trim (the (search filters)) in
         w\<lparr>w_AND := Some [Or [Title_contains searchTerm,
                               Description_contains searchTerm,
                               Requirements_contains searchTerm,
                               Responsibilities_contains searchTerm,
                               Company_name_contains searchTerm]]\<rparr>)
      else w)"

text \<open>The search term the block above uses, when it applies.\<close>

definition search_term :: "JobFilters \<Rightarrow> string option" where
  "search_term f =
     (if truthy_str (search f) \<and> 0 < length (trim (the (search f)))
      then Some (trim (the (search f))) else None)"

definition add_category :: "JobFilters \<Rightarrow> WhereClause \<Rightarrow> WhereClause" where
  "add_category filters w =
     (if truthy_str (category filters) then w\<lparr>w_categoryId := category filters\<rparr> else w)"

definition add_type :: "JobFilters \<Rightarrow> WhereClause \<Rightarrow> WhereClause" where
  "add_type filters w =
     (if truthy_str (type filters) then w\<lparr>w_type := type filters\<rparr> else w)"

text \<open>\<^verbatim>\<open>if (location && !isRemote)\<close>: \<^verbatim>\<open>!isRemote\<close> holds for an absent and for a false flag.\<close>

definition add_location :: "JobFilters \<Rightarrow> WhereClause \<Rightarrow> WhereClause" where
  "add_location filters w =
     (if truthy_str (location filters) \<and> isRemote filters \<noteq> Some True
      then w\<lparr>w_location := location filters\<rparr> else w)"

text \<open>\<^verbatim>\<open>if (isRemote !== undefined)\<close>\<close>

definition add_isRemote :: "JobFilters \<Rightarrow> WhereClause \<Rightarrow> WhereClause" where
  "add_isRemote filters w =
     (if isRemote filters \<noteq> None then w\<lparr>w_isRemote := isRemote filters\<rparr> else w)"

definition add_experienceLevel :: "JobFilters \<Rightarrow> WhereClause \<Rightarrow> WhereClause" where
  "add_experienceLevel filters w =
     (if truthy_str (experienceLevel filters)
      then w\<lparr>w_experienceLevel := experienceLevel filters\<rparr> else w)"

text \<open>
  The salary block. \<^verbatim>\<open>whereClause.AND = whereClause.AND || []\<close> keeps an array that the
  search block has set and starts an empty one otherwise; each \<^verbatim>\<open>push\<close> appends.
\<close>

definition add_salary :: "JobFilters \<Rightarrow> WhereClause \<Rightarrow> WhereClause" where
  "add_salary filters w =
     (if truthy_num (salaryMin filters) \<or> truthy_num (salaryMax filters) then
        (let a0 = (case w_AND w of None \<Rightarrow> [] | Some a \<Rightarrow> a);
             a1 = (if truthy_num (salaryMin filters)
                   then a0 @ [Or [SalaryMin_gte (the (salaryMin filters)),
                                  SalaryMax_gte (the (salaryMin filters))]]
                   else a0);
             a2 = (if truthy_num (salaryMax filters)
                   then a1 @ [SalaryMax_lte (the (salaryMax filters))]
                   else a1)
         in w\<lparr>w_AND := Some a2\<rparr>)
      else w)"

text \<open>\<^verbatim>\<open>if (skills && skills.length > 0)\<close>\<close>

definition add_skills :: "JobFilters \<Rightarrow> WhereClause \<Rightarrow> WhereClause" where
  "add_skills filters w =
     (case skills filters of
        None \<Rightarrow> w
      | Some ss \<Rightarrow> if 0 < length ss then w\<lparr>w_jobSkills := Some ss\<rparr> else w)"

text \<open>
  The where clause \<^verbatim>\<open>searchJobs\<close> builds, statement by statement in the order of the
  source; \<open>now\<close> is the value of the one \<^verbatim>\<open>new Date()\<close> in the object literal.
\<close>

definition searchJobs_where :: "JobFilters \<Rightarrow> int \<Rightarrow> WhereClause" where
  "searchJobs_where filters now =
     add_skills filters
       (add_salary filters
         (add_experienceLevel filters
           (add_isRemote filters
             (add_location filters
               (add_type filters
                 (add_category filters
                   (add_search filters (baseline_where now))))))))"

subsection \<open>\<^verbatim>\<open>JobService.searchJobs\<close>: the sort clause\<close>

text \<open>The destructuring defaults \<^verbatim>\<open>sortBy = "createdAt"\<close>, \<^verbatim>\<open>sortOrder = "desc"\<close>.\<close>

definition sortBy_or_default :: "JobFilters \<Rightarrow> string" where
  "sortBy_or_default filters = (case sortBy filters of None \<Rightarrow> ''createdAt'' | Some s \<Rightarrow> s)"

definition sortOrder_or_default :: "JobFilters \<Rightarrow> SortOrder" where
  "sortOrder_or_default filters = (case sortOrder filters of None \<Rightarrow> desc | Some d \<Rightarrow> d)"

text \<open>
  \<^verbatim>\<open>orderBy[sortBy] = sortOrder\<close> on the fresh object \<^verbatim>\<open>{}\<close>: the key becomes an own
  property, except for the key \<^verbatim>\<open>__proto__\<close>, whose assignment of a string is ignored
  and leaves the object empty.
\<close>

definition assign_key :: "string \<Rightarrow> SortOrder \<Rightarrow> OrderBy" where
  "assign_key key direction =
     (if key = ''__proto__'' then OrderBy_empty else OrderBy_field key direction)"

text \<open>\<^verbatim>\<open>src/services/job.service.ts\<close>, lines 236 to 244.\<close>

definition searchJobs_orderBy :: "JobFilters \<Rightarrow> OrderBy" where
  "searchJobs_orderBy filters =
     (if sortBy_or_default filters = ''salary''
      then OrderBy_field ''salaryMax'' (sortOrder_or_default filters)
      else if sortBy_or_default filters = ''company''
      then OrderBy_company_name (sortOrder_or_default filters)
      else assign_key (sortBy_or_default filters) (sortOrder_or_default filters))"

text \<open>
  The sort clause of the second copy of \<^verbatim>\<open>searchJobs\<close> (\<^verbatim>\<open>src/unnamed/part_000\<close>, lines
  202 to 210): its \<^verbatim>\<open>"salary"\<close> branch assigns \<^verbatim>\<open>orderBy.company = { name: sortOrder }\<close>.
\<close>

definition searchJobs_orderBy_part_000 :: "JobFilters \<Rightarrow> OrderBy" where
  "searchJobs_orderBy_part_000 filters =
     (if sortBy_or_default filters = ''salary''
      then OrderBy_company_name (sortOrder_or_default filters)
      else if sortBy_or_default filters = ''company''
      then OrderBy_company_name (sortOrder_or_default filters)
      else assign_key (sortBy_or_default filters) (sortOrder_or_default filters))"

subsection \<open>The store's read operations and the two listing methods\<close>

text \<open>
  \<^verbatim>\<open>job.findMany({ skip, take, where, orderBy })\<close> and \<^verbatim>\<open>job.count({ where })\<close> on one
  state of the store. How the store orders rows for an \<^verbatim>\<open>orderBy\<close> is the store's
  business and stays a parameter \<open>order\<close>. \<open>skip\<close> and \<open>take\<close> are the non-negative
  values the store accepts.
\<close>

definition findMany :: "(OrderBy \<Rightarrow> Job list \<Rightarrow> Job list) \<Rightarrow> DB \<Rightarrow> nat \<Rightarrow> nat \<Rightarrow> WhereClause \<Rightarrow> OrderBy \<Rightarrow> Job list" where
  "findMany order db skip tk w ob = take tk (drop skip (order ob (filter (eval_where db w) (jobs db))))"

definition count_jobs :: "DB \<Rightarrow> WhereClause \<Rightarrow> nat" where
  "count_jobs db w = length (filter (eval_where db w) (jobs db))"

text \<open>
  \<^verbatim>\<open>searchJobs\<close>: one object \<^verbatim>\<open>whereClause\<close> is built and handed to both calls.
\<close>

definition searchJobs :: "(OrderBy \<Rightarrow> Job list \<Rightarrow> Job list) \<Rightarrow> DB \<Rightarrow> JobFilters \<Rightarrow> nat \<Rightarrow> nat \<Rightarrow> int \<Rightarrow> Job list \<times> nat" where
  "searchJobs order db filters skip limit now =
     (let whereClause = searchJobs_where filters now;
          orderBy = searchJobs_orderBy filters
      in (findMany order db skip limit whereClause orderBy, count_jobs db whereClause))"

text \<open>
  \<^verbatim>\<open>getAllJobs\<close>: the where object is written out twice, once in the argument of
  \<^verbatim>\<open>findMany\<close> and once in the argument of \<^verbatim>\<open>count\<close>, each with its own
  \<^verbatim>\<open>new Date()\<close>. The array literal passed to \<^verbatim>\<open>Promise.all\<close> evaluates them in this
  order: \<open>now_fetch\<close> is the value of the first, \<open>now_count\<close> of the second.
\<close>

definition getAllJobs :: "(OrderBy \<Rightarrow> Job list \<Rightarrow> Job list) \<Rightarrow> DB \<Rightarrow> nat \<Rightarrow> nat \<Rightarrow> OrderBy \<Rightarrow> int \<Rightarrow> int \<Rightarrow> Job list \<times> nat" where
  "getAllJobs order db skip limit sort_arg now_fetch now_count =
     (findMany order db skip limit (baseline_where now_fetch) sort_arg,
      count_jobs db (baseline_where now_count))"

subsection \<open>\<^verbatim>\<open>BaseController.getPaginationParams\<close>\<close>

text \<open>
  \<^verbatim>\<open>parseInt(string)\<close> with no radix, after ECMAScript: leading white space is
  skipped, one sign is read, a prefix \<^verbatim>\<open>0x\<close> or \<^verbatim>\<open>0X\<close> selects radix 16, the longest run
  of digits of the radix is read, and no digit at all gives \<^verbatim>\<open>NaN\<close> (\<open>None\<close>). An absent
  query parameter is \<^verbatim>\<open>undefined\<close>, which reads as the text \<^verbatim>\<open>undefined\<close> and gives
  \<^verbatim>\<open>NaN\<close>. The value is exact here; JavaScript rounds it beyond \<open>2 ^ 53\<close>.
\<close>

definition digit_val :: "char \<Rightarrow> nat option" where
  "digit_val c =
     (let n = (of_char c :: nat) in
      if 48 \<le> n \<and> n \<le> 57 then Some (n - 48)
      else if 97 \<le> n \<and> n \<le> 122 then Some (n - 87)
      else if 65 \<le> n \<and> n \<le> 90 then Some (n - 55)
      else None)"

definition is_digit_in :: "nat \<Rightarrow> char \<Rightarrow> bool" where
  "is_digit_in R c = (case digit_val c of None \<Rightarrow> False | Some d \<Rightarrow> d < R)"

fun digits_value :: "nat \<Rightarrow> nat \<Rightarrow> string \<Rightarrow> nat" where
  "digits_value R acc [] = acc"
| "digits_value R acc (c # cs) =
     digits_value R (acc * R + (case digit_val c of None \<Rightarrow> 0 | Some d \<Rightarrow> d)) cs"

definition parseInt :: "string option \<Rightarrow> int option" where
  "parseInt inp =
     (case inp of
        None \<Rightarrow> None
      | Some str \<Rightarrow>
          (let S = dropWhile is_space str;
               neg = (take 1 S = ''-'');
               S1 = (if take 1 S = ''+'' \<or> take 1 S = ''-'' then drop 1 S else S);
               hex = (take 2 S1 = ''0x'' \<or> take 2 S1 = ''0X'');
               R = (if hex then 16 else 10);
               S2 = (if hex then drop 2 S1 else S1);
               Z = takeWhile (is_digit_in R) S2
           in if Z = [] then None
              else Some ((if neg then - 1 else 1) * int (digits_value R 0 Z))))"

text \<open>\<^verbatim>\<open>n || d\<close> on a number: \<^verbatim>\<open>NaN\<close> and \<open>0\<close> are falsy.\<close>

definition or_default :: "int option \<Rightarrow> int \<Rightarrow> int" where
  "or_default n d = (case n of None \<Rightarrow> d | Some v \<Rightarrow> if v = 0 then d else v)"

record Query =
  query_page :: "string option"
  query_limit :: "string option"

record PaginationParams =
  page :: int
  limit :: int
  skip :: int

definition getPaginationParams :: "Query \<Rightarrow> PaginationParams" where
  "getPaginationParams q =
     (let page = or_default (parseInt (query_page q)) 1;
          limit = min (or_default (parseInt (query_limit q)) 10) 50;
          skip = (page - 1) * limit
      in \<lparr> page = page, limit = limit, skip = skip \<rparr>)"

subsection \<open>\<^verbatim>\<open>JobService.deleteJob\<close>\<close>

definition findUnique_job :: "DB \<Rightarrow> string \<Rightarrow> Job option" where
  "findUnique_job db jobId = find (\<lambda>j. job_id j = jobId) (jobs db)"

text \<open>\<^verbatim>\<open>_count: { select: { applications: true } }\<close> of a job.\<close>

definition count_applications :: "DB \<Rightarrow> string \<Rightarrow> nat" where
  "count_applications db jobId = length (filter (\<lambda>a. app_jobId a = jobId) (applications db))"

text \<open>
  Modelled from the spec: the Prisma schema is not among the source files, so the
  effect of \<^verbatim>\<open>job.delete({ where: { id } })\<close> on the join table is taken from the spec's
  data model (``cascade delete of job skills with job'') and from the comment at the
  call (``cascades to job skills due to Prisma schema''): the job row and every
  \<^verbatim>\<open>JobSkill\<close> row of that job go.
\<close>

definition job_delete :: "DB \<Rightarrow> string \<Rightarrow> DB" where
  "job_delete db jobId =
     db\<lparr> jobs := filter (\<lambda>j. job_id j \<noteq> jobId) (jobs db),
         jobSkills := filter (\<lambda>r. js_jobId r \<noteq> jobId) (jobSkills db) \<rparr>"

text \<open>The result and the store after the call; a thrown error leaves the store as it was.\<close>

definition deleteJob :: "DB \<Rightarrow> string \<Rightarrow> string \<Rightarrow> (AppError + string) \<times> DB" where
  "deleteJob db jobId userId =
     (case findUnique_job db jobId of
        None \<Rightarrow> (Inl (AppError ''Job not found'' 404), db)
      | Some job \<Rightarrow>
          if ownerId (job_company job) \<noteq> userId
          then (Inl (AppError ''You can only delete your own jobs'' 403), db)
          else if 0 < count_applications db jobId
          then (Inl (AppError
                  ''Cannot delete job with existing applications. Close the job instead.'' 400),
                db)
          else (Inr ''Job deleted successfully'', job_delete db jobId))"

subsection \<open>\<^verbatim>\<open>JobService.applyToJob\<close>\<close>

record ApplyToJobData =
  coverLetter :: "string option"
  resumeUrl :: "string option"

definition findUnique_user :: "DB \<Rightarrow> string \<Rightarrow> User option" where
  "findUnique_user db userId = find (\<lambda>u. user_id u = userId) (users db)"

text \<open>\<^verbatim>\<open>application.findUnique({ where: { jobId_applicantId: { jobId, applicantId } } })\<close>\<close>

definition findUnique_application :: "DB \<Rightarrow> string \<Rightarrow> string \<Rightarrow> Application option" where
  "findUnique_application db jobId applicantId =
     find (\<lambda>a. app_jobId a = jobId \<and> app_applicantId a = applicantId) (applications db)"

text \<open>
  \<open>now\<close> is the value of \<^verbatim>\<open>new Date()\<close> in the expiry check, read only when the job has
  an \<^verbatim>\<open>expiresAt\<close>.
\<close>

definition applyToJob :: "DB \<Rightarrow> string \<Rightarrow> string \<Rightarrow> ApplyToJobData \<Rightarrow> int \<Rightarrow> (AppError + Application) \<times> DB" where
  "applyToJob db jobId userId data now =
     (case findUnique_job db jobId of
        None \<Rightarrow> (Inl (AppError ''Job not found'' 404), db)
      | Some job \<Rightarrow>
          if job_status job \<noteq> PUBLISHED
          then (Inl (AppError ''This job is not accepting applications'' 400), db)
          else if (case job_expiresAt job of None \<Rightarrow> False | Some e \<Rightarrow> e < now)
          then (Inl (AppError ''This job posting has expired'' 400), db)
          else
            (case findUnique_user db userId of
               None \<Rightarrow> (Inl (AppError ''Only job seekers can apply to jobs'' 403), db)
             | Some user \<Rightarrow>
                 if user_role user \<noteq> JOB_SEEKER
                 then (Inl (AppError ''Only job seekers can apply to jobs'' 403), db)
                 else
                   (case findUnique_application db jobId userId of
                      Some existingApplication \<Rightarrow>
                        (Inl (AppError ''You have already applied to this job'' 409), db)
                    | None \<Rightarrow>
                        (let application =
                           \<lparr> app_jobId = jobId,
                             app_applicantId = userId,
                             app_coverLetter = map_option trim (coverLetter data),
                             app_resumeUrl =
                               (if truthy_str (resumeUrl data) then resumeUrl data
                                else (case user_profile user of
                                        None \<Rightarrow> None
                                      | Some p \<Rightarrow> profile_resumeUrl p)),
                             app_status = ''PENDING'' \<rparr>
                         in (Inr application,
                             db\<lparr> applications := applications db @ [application] \<rparr>)))))"

text \<open>The rows of one applicant for one job.\<close>

definition applications_of :: "DB \<Rightarrow> string \<Rightarrow> string \<Rightarrow> Application list" where
  "applications_of db jobId applicantId =
     filter (\<lambda>a. app_jobId a = jobId \<and> app_applicantId a = applicantId) (applications db)"

subsection \<open>\<^verbatim>\<open>JobService.expireOldJobs\<close>\<close>

text \<open>\<^verbatim>\<open>where: { status: "PUBLISHED", expiresAt: { lte: now } }\<close>\<close>

definition expire_where :: "int \<Rightarrow> Job \<Rightarrow> bool" where
  "expire_where now j = (job_status j = PUBLISHED \<and> lte (job_expiresAt j) now)"

text \<open>\<^verbatim>\<open>data: { status: "EXPIRED", updatedAt: now }\<close>\<close>

definition expire_data :: "int \<Rightarrow> Job \<Rightarrow> Job" where
  "expire_data now j = j\<lparr> job_status := EXPIRED, job_updatedAt := now \<rparr>"

text \<open>
  \<^verbatim>\<open>job.updateMany\<close> rewrites every row the where clause admits and reports how many
  there were; the method returns that count. \<open>now\<close> is its one \<^verbatim>\<open>new Date()\<close>.
\<close>

definition expireOldJobs :: "DB \<Rightarrow> int \<Rightarrow> nat \<times> DB" where
  "expireOldJobs db now =
     (length (filter (expire_where now) (jobs db)),
      db\<lparr> jobs := map (\<lambda>j. if expire_where now j then expire_data now j else j) (jobs db) \<rparr>)"

subsection \<open>Concrete rows, requests and stores for the examples\<close>

definition acme :: Company where
  "acme = \<lparr> company_id = ''c1'', company_name = ''Acme'', ownerId = ''e1'' \<rparr>"

text \<open>A published job without salary figures that expires at instant 1001.\<close>

definition job_j1 :: Job where
  "job_j1 =
     \<lparr> job_id = ''j1'', job_title = ''Backend Engineer'', job_description = ''Builds services'',
       job_requirements = None, job_responsibilities = None,
       job_type = ''FULL_TIME'', job_experienceLevel = ''MID'',
       job_salaryMin = None, job_salaryMax = None,
       job_location = Some ''Berlin'', job_isRemote = True,
       job_status = PUBLISHED, job_expiresAt = Some 1001, job_updatedAt = 0,
       job_categoryId = Some ''cat1'', job_company = acme \<rparr>"

text \<open>The same job with the salary range 3000 to 6000 and no expiry.\<close>

definition job_j2 :: Job where
  "job_j2 = job_j1\<lparr> job_id := ''j2'', job_salaryMin := Some 3000, job_salaryMax := Some 6000,
                     job_expiresAt := None \<rparr>"

definition seeker_u1 :: User where
  "seeker_u1 = \<lparr> user_id = ''u1'', user_role = JOB_SEEKER,
                 user_profile = Some \<lparr> profile_resumeUrl = Some ''/cv/u1.pdf'' \<rparr> \<rparr>"

definition skill_j1_s1 :: JobSkill where
  "skill_j1_s1 = \<lparr> js_jobId = ''j1'', js_skillId = ''s1'', js_isRequired = True \<rparr>"

definition application_u1_j1 :: Application where
  "application_u1_j1 =
     \<lparr> app_jobId = ''j1'', app_applicantId = ''u1'', app_coverLetter = None,
       app_resumeUrl = Some ''/cv/u1.pdf'', app_status = ''PENDING'' \<rparr>"

definition db_j1 :: DB where
  "db_j1 = \<lparr> jobs = [job_j1], users = [seeker_u1], applications = [],
             jobSkills = [skill_j1_s1] \<rparr>"

definition skill_j2_s1 :: JobSkill where
  "skill_j2_s1 = \<lparr> js_jobId = ''j2'', js_skillId = ''s1'', js_isRequired = True \<rparr>"

definition db_two :: DB where
  "db_two = \<lparr> jobs = [job_j1, job_j2], users = [seeker_u1], applications = [],
              jobSkills = [skill_j1_s1, skill_j2_s1] \<rparr>"

text \<open>The store after \<open>u1\<close> has applied to \<open>j1\<close>.\<close>

definition db_applied :: DB where
  "db_applied = db_j1\<lparr> applications := [application_u1_j1] \<rparr>"

text \<open>The same store after the employer has closed \<open>j1\<close>.\<close>

definition db_closed :: DB where
  "db_closed = db_applied\<lparr> jobs := [job_j1\<lparr> job_status := CLOSED \<rparr>] \<rparr>"

definition no_filters :: JobFilters where
  "no_filters =
     \<lparr> search = None, category = None, type = None, location = None,
       salaryMin = None, salaryMax = None, isRemote = None, experienceLevel = None,
       skills = None, sortBy = None, sortOrder = None \<rparr>"

text \<open>A request that supplies every filter.\<close>

definition all_filters :: JobFilters where
  "all_filters =
     \<lparr> search = Some '' engineer '', category = Some ''cat1'', type = Some ''FULL_TIME'',
       location = Some ''Paris'', salaryMin = Some 5000, salaryMax = Some 9000,
       isRemote = Some True, experienceLevel = Some ''MID'', skills = Some [''s1''],
       sortBy = Some ''salary'', sortOrder = Some asc \<rparr>"

definition no_data :: ApplyToJobData where
  "no_data = \<lparr> coverLetter = None, resumeUrl = None \<rparr>"

text \<open>A store that returns rows in table order whatever the sort clause.\<close>

definition table_order :: "OrderBy \<Rightarrow> Job list \<Rightarrow> Job list" where
  "table_order ob rows = rows"

section \<open>Properties\<close>

subsection \<open>The where clause, key by key\<close>

lemma eval_cond_location:
  "eval_cond (j\<lparr>job_location := l\<rparr>) c = eval_cond j c"
  "eval_any (j\<lparr>job_location := l\<rparr>) cs = eval_any j cs"
  by (induction j c and j cs rule: eval_cond_eval_any.induct) simp_all

lemma eval_all_location: "eval_all (j\<lparr>job_location := l\<rparr>) cs = eval_all j cs"
  by (induction cs) (simp_all add: eval_cond_location)

lemma eval_all_append: "eval_all j (xs @ ys) = (eval_all j xs \<and> eval_all j ys)"
  by (induction xs) auto

lemma has_some_skill_location:
  "has_some_skill db (j\<lparr>job_location := l\<rparr>) ss = has_some_skill db j ss"
  by (simp add: has_some_skill_def)

lemma add_search_sel:
  "w_status (add_search f w) = w_status w"
  "w_OR (add_search f w) = w_OR w"
  "w_categoryId (add_search f w) = w_categoryId w"
  "w_type (add_search f w) = w_type w"
  "w_location (add_search f w) = w_location w"
  "w_isRemote (add_search f w) = w_isRemote w"
  "w_experienceLevel (add_search f w) = w_experienceLevel w"
  "w_jobSkills (add_search f w) = w_jobSkills w"
  by (simp_all add: add_search_def Let_def)

lemma add_category_sel:
  "w_status (add_category f w) = w_status w"
  "w_OR (add_category f w) = w_OR w"
  "w_AND (add_category f w) = w_AND w"
  "w_type (add_category f w) = w_type w"
  "w_location (add_category f w) = w_location w"
  "w_isRemote (add_category f w) = w_isRemote w"
  "w_experienceLevel (add_category f w) = w_experienceLevel w"
  "w_jobSkills (add_category f w) = w_jobSkills w"
  by (simp_all add: add_category_def)

lemma add_type_sel:
  "w_status (add_type f w) = w_status w"
  "w_OR (add_type f w) = w_OR w"
  "w_AND (add_type f w) = w_AND w"
  "w_categoryId (add_type f w) = w_categoryId w"
  "w_location (add_type f w) = w_location w"
  "w_isRemote (add_type f w) = w_isRemote w"
  "w_experienceLevel (add_type f w) = w_experienceLevel w"
  "w_jobSkills (add_type f w) = w_jobSkills w"
  by (simp_all add: add_type_def)

lemma add_location_sel:
  "w_status (add_location f w) = w_status w"
  "w_OR (add_location f w) = w_OR w"
  "w_AND (add_location f w) = w_AND w"
  "w_categoryId (add_location f w) = w_categoryId w"
  "w_type (add_location f w) = w_type w"
  "w_isRemote (add_location f w) = w_isRemote w"
  "w_experienceLevel (add_location f w) = w_experienceLevel w"
  "w_jobSkills (add_location f w) = w_jobSkills w"
  by (simp_all add: add_location_def)

lemma add_isRemote_sel:
  "w_status (add_isRemote f w) = w_status w"
  "w_OR (add_isRemote f w) = w_OR w"
  "w_AND (add_isRemote f w) = w_AND w"
  "w_categoryId (add_isRemote f w) = w_categoryId w"
  "w_type (add_isRemote f w) = w_type w"
  "w_location (add_isRemote f w) = w_location w"
  "w_experienceLevel (add_isRemote f w) = w_experienceLevel w"
  "w_jobSkills (add_isRemote f w) = w_jobSkills w"
  by (simp_all add: add_isRemote_def)

lemma add_experienceLevel_sel:
  "w_status (add_experienceLevel f w) = w_status w"
  "w_OR (add_experienceLevel f w) = w_OR w"
  "w_AND (add_experienceLevel f w) = w_AND w"
  "w_categoryId (add_experienceLevel f w) = w_categoryId w"
  "w_type (add_experienceLevel f w) = w_type w"
  "w_location (add_experienceLevel f w) = w_location w"
  "w_isRemote (add_experienceLevel f w) = w_isRemote w"
  "w_jobSkills (add_experienceLevel f w) = w_jobSkills w"
  by (simp_all add: add_experienceLevel_def)

lemma add_salary_sel:
  "w_status (add_salary f w) = w_status w"
  "w_OR (add_salary f w) = w_OR w"
  "w_categoryId (add_salary f w) = w_categoryId w"
  "w_type (add_salary f w) = w_type w"
  "w_location (add_salary f w) = w_location w"
  "w_isRemote (add_salary f w) = w_isRemote w"
  "w_experienceLevel (add_salary f w) = w_experienceLevel w"
  "w_jobSkills (add_salary f w) = w_jobSkills w"
  by (simp_all add: add_salary_def Let_def)

lemma add_skills_sel:
  "w_status (add_skills f w) = w_status w"
  "w_OR (add_skills f w) = w_OR w"
  "w_AND (add_skills f w) = w_AND w"
  "w_categoryId (add_skills f w) = w_categoryId w"
  "w_type (add_skills f w) = w_type w"
  "w_location (add_skills f w) = w_location w"
  "w_isRemote (add_skills f w) = w_isRemote w"
  "w_experienceLevel (add_skills f w) = w_experienceLevel w"
  by (simp_all add: add_skills_def split: option.split)

lemmas add_sel = add_search_sel add_category_sel add_type_sel add_location_sel
  add_isRemote_sel add_experienceLevel_sel add_salary_sel add_skills_sel

lemma sw_status: "w_status (searchJobs_where f now) = Some PUBLISHED"
  by (simp add: searchJobs_where_def add_sel baseline_where_def)

lemma sw_OR: "w_OR (searchJobs_where f now) = Some [ExpiresAt_null, ExpiresAt_gt now]"
  by (simp add: searchJobs_where_def add_sel baseline_where_def)

lemma sw_location:
  "w_location (searchJobs_where f now) =
     (if truthy_str (location f) \<and> isRemote f \<noteq> Some True then location f else None)"
  by (simp add: searchJobs_where_def add_sel baseline_where_def add_location_def)



lemma add_other_salaryMin:
  "add_search (f\<lparr>salaryMin := x\<rparr>) = add_search f"
  "add_category (f\<lparr>salaryMin := x\<rparr>) = add_category f"
  "add_type (f\<lparr>salaryMin := x\<rparr>) = add_type f"
  "add_location (f\<lparr>salaryMin := x\<rparr>) = add_location f"
  "add_isRemote (f\<lparr>salaryMin := x\<rparr>) = add_isRemote f"
  "add_experienceLevel (f\<lparr>salaryMin := x\<rparr>) = add_experienceLevel f"
  "add_skills (f\<lparr>salaryMin := x\<rparr>) = add_skills f"
  by (simp_all add: fun_eq_iff add_search_def add_category_def add_type_def add_location_def
      add_isRemote_def add_experienceLevel_def add_skills_def)

lemma add_other_salaryMax:
  "add_search (f\<lparr>salaryMax := x\<rparr>) = add_search f"
  "add_category (f\<lparr>salaryMax := x\<rparr>) = add_category f"
  "add_type (f\<lparr>salaryMax := x\<rparr>) = add_type f"
  "add_location (f\<lparr>salaryMax := x\<rparr>) = add_location f"
  "add_isRemote (f\<lparr>salaryMax := x\<rparr>) = add_isRemote f"
  "add_experienceLevel (f\<lparr>salaryMax := x\<rparr>) = add_experienceLevel f"
  "add_skills (f\<lparr>salaryMax := x\<rparr>) = add_skills f"
  by (simp_all add: fun_eq_iff add_search_def add_category_def add_type_def add_location_def
      add_isRemote_def add_experienceLevel_def add_skills_def)

lemma add_salary_zero:
  "add_salary (f\<lparr>salaryMin := Some 0\<rparr>) w = add_salary (f\<lparr>salaryMin := None\<rparr>) w"
  "add_salary (f\<lparr>salaryMax := Some 0\<rparr>) w = add_salary (f\<lparr>salaryMax := None\<rparr>) w"
  by (simp_all add: add_salary_def truthy_num_def)

lemma sw_salary_zero_min:
  "searchJobs_where (f\<lparr>salaryMin := Some 0\<rparr>) now = searchJobs_where (f\<lparr>salaryMin := None\<rparr>) now"
  by (simp only: searchJobs_where_def add_other_salaryMin add_salary_zero)

lemma sw_salary_zero_max:
  "searchJobs_where (f\<lparr>salaryMax := Some 0\<rparr>) now = searchJobs_where (f\<lparr>salaryMax := None\<rparr>) now"
  by (simp only: searchJobs_where_def add_other_salaryMax add_salary_zero)


lemma job_location_update_sel:
  "job_status (j\<lparr>job_location := l\<rparr>) = job_status j"
  "job_categoryId (j\<lparr>job_location := l\<rparr>) = job_categoryId j"
  "job_type (j\<lparr>job_location := l\<rparr>) = job_type j"
  "job_isRemote (j\<lparr>job_location := l\<rparr>) = job_isRemote j"
  "job_experienceLevel (j\<lparr>job_location := l\<rparr>) = job_experienceLevel j"
  by simp_all

lemma eval_where_no_location:
  "w_location w = None \<Longrightarrow> eval_where db w (j\<lparr>job_location := l\<rparr>) = eval_where db w j"
  unfolding eval_where_def
  by (simp only: eval_cond_location eval_all_location has_some_skill_location
      job_location_update_sel option.case cong: option.case_cong)


lemma add_salary_AND_cong:
  "w_AND w = w_AND w' \<Longrightarrow> w_AND (add_salary f w) = w_AND (add_salary f w')"
  by (simp add: add_salary_def Let_def)

lemma sw_AND:
  "w_AND (searchJobs_where f now) = w_AND (add_salary f (add_search f (baseline_where now)))"
  unfolding searchJobs_where_def
  by (simp only: add_sel, rule add_salary_AND_cong, simp only: add_sel)

lemma eval_AND_add_salary:
  "(case w_AND (add_salary f w) of None \<Rightarrow> True | Some cs \<Rightarrow> eval_all j cs) =
     ((case w_AND w of None \<Rightarrow> True | Some cs \<Rightarrow> eval_all j cs)
      \<and> (truthy_num (salaryMin f) \<longrightarrow>
           gte (job_salaryMin j) (the (salaryMin f)) \<or> gte (job_salaryMax j) (the (salaryMin f)))
      \<and> (truthy_num (salaryMax f) \<longrightarrow> lte (job_salaryMax j) (the (salaryMax f))))"
  by (auto simp: add_salary_def Let_def eval_all_append split: option.splits)

lemma eval_AND_add_search:
  "(case w_AND (add_search f (baseline_where now)) of None \<Rightarrow> True | Some cs \<Rightarrow> eval_all j cs) =
     (case search_term f of
        None \<Rightarrow> True
      | Some t \<Rightarrow> eval_any j [Title_contains t, Description_contains t, Requirements_contains t,
                              Responsibilities_contains t, Company_name_contains t])"
  by (simp add: add_search_def search_term_def baseline_where_def Let_def)

lemma sw_eval_status:
  "(case w_status (searchJobs_where f now) of None \<Rightarrow> True | Some s \<Rightarrow> job_status j = s) =
     (job_status j = PUBLISHED)"
  by (simp add: sw_status)

lemma sw_eval_OR:
  "(case w_OR (searchJobs_where f now) of None \<Rightarrow> True | Some cs \<Rightarrow> eval_any j cs) =
     (job_expiresAt j = None \<or> gt (job_expiresAt j) now)"
  by (simp add: sw_OR)

lemma sw_eval_AND:
  "(case w_AND (searchJobs_where f now) of None \<Rightarrow> True | Some cs \<Rightarrow> eval_all j cs) =
     ((case search_term f of
         None \<Rightarrow> True
       | Some t \<Rightarrow> eval_any j [Title_contains t, Description_contains t, Requirements_contains t,
                               Responsibilities_contains t, Company_name_contains t])
      \<and> (truthy_num (salaryMin f) \<longrightarrow>
           gte (job_salaryMin j) (the (salaryMin f)) \<or> gte (job_salaryMax j) (the (salaryMin f)))
      \<and> (truthy_num (salaryMax f) \<longrightarrow> lte (job_salaryMax j) (the (salaryMax f))))"
  by (simp only: sw_AND eval_AND_add_salary eval_AND_add_search)

lemma sw_eval_categoryId:
  "(case w_categoryId (searchJobs_where f now) of None \<Rightarrow> True | Some c \<Rightarrow> job_categoryId j = Some c) =
     (truthy_str (category f) \<longrightarrow> job_categoryId j = category f)"
  by (simp add: searchJobs_where_def add_sel baseline_where_def add_category_def truthy_str_def
      split: option.split)

lemma sw_eval_type:
  "(case w_type (searchJobs_where f now) of None \<Rightarrow> True | Some t \<Rightarrow> job_type j = t) =
     (truthy_str (type f) \<longrightarrow> Some (job_type j) = type f)"
  by (auto simp: searchJobs_where_def add_sel baseline_where_def add_type_def truthy_str_def
      split: option.split)

lemma sw_eval_location:
  "(case w_location (searchJobs_where f now) of None \<Rightarrow> True
    | Some l \<Rightarrow> contains_insensitive (job_location j) l) =
     (truthy_str (location f) \<and> isRemote f \<noteq> Some True \<longrightarrow>
        contains_insensitive (job_location j) (the (location f)))"
  by (auto simp: sw_location truthy_str_def split: option.split)

lemma sw_eval_isRemote:
  "(case w_isRemote (searchJobs_where f now) of None \<Rightarrow> True | Some b \<Rightarrow> job_isRemote j = b) =
     (case isRemote f of None \<Rightarrow> True | Some b \<Rightarrow> job_isRemote j = b)"
  by (auto simp: searchJobs_where_def add_sel baseline_where_def add_isRemote_def
      split: option.split)

lemma sw_eval_experienceLevel:
  "(case w_experienceLevel (searchJobs_where f now) of None \<Rightarrow> True
    | Some e \<Rightarrow> job_experienceLevel j = e) =
     (truthy_str (experienceLevel f) \<longrightarrow> Some (job_experienceLevel j) = experienceLevel f)"
  by (auto simp: searchJobs_where_def add_sel baseline_where_def add_experienceLevel_def
      truthy_str_def split: option.split)

lemma sw_eval_jobSkills:
  "(case w_jobSkills (searchJobs_where f now) of None \<Rightarrow> True | Some ss \<Rightarrow> has_some_skill db j ss) =
     (case skills f of None \<Rightarrow> True | Some ss \<Rightarrow> ss \<noteq> [] \<longrightarrow> has_some_skill db j ss)"
  by (auto simp: searchJobs_where_def add_skills_def add_sel baseline_where_def
      split: option.split)

lemma eval_where_searchJobs:
  "eval_where db (searchJobs_where f now) j =
     (job_status j = PUBLISHED
      \<and> (job_expiresAt j = None \<or> gt (job_expiresAt j) now)
      \<and> ((case search_term f of
           None \<Rightarrow> True
         | Some t \<Rightarrow> eval_any j [Title_contains t, Description_contains t, Requirements_contains t,
                                 Responsibilities_contains t, Company_name_contains t])
         \<and> (truthy_num (salaryMin f) \<longrightarrow>
              gte (job_salaryMin j) (the (salaryMin f)) \<or> gte (job_salaryMax j) (the (salaryMin f)))
         \<and> (truthy_num (salaryMax f) \<longrightarrow> lte (job_salaryMax j) (the (salaryMax f))))
      \<and> (truthy_str (category f) \<longrightarrow> job_categoryId j = category f)
      \<and> (truthy_str (type f) \<longrightarrow> Some (job_type j) = type f)
      \<and> (truthy_str (location f) \<and> isRemote f \<noteq> Some True \<longrightarrow>
            contains_insensitive (job_location j) (the (location f)))
      \<and> (case isRemote f of None \<Rightarrow> True | Some b \<Rightarrow> job_isRemote j = b)
      \<and> (truthy_str (experienceLevel f) \<longrightarrow> Some (job_experienceLevel j) = experienceLevel f)
      \<and> (case skills f of None \<Rightarrow> True | Some ss \<Rightarrow> ss \<noteq> [] \<longrightarrow> has_some_skill db j ss))"
  unfolding eval_where_def
  by (simp only: sw_eval_status sw_eval_OR sw_eval_AND sw_eval_categoryId sw_eval_type
      sw_eval_location sw_eval_isRemote sw_eval_experienceLevel sw_eval_jobSkills)

subsection \<open>Applications and the expiry sweep: auxiliary facts\<close>

lemma findUnique_application_None:
  "(findUnique_application db jobId userId = None) = (applications_of db jobId userId = [])"
  by (auto simp: findUnique_application_def applications_of_def find_None_iff filter_empty_conv)

lemma applications_of_append:
  "applications_of (db\<lparr>applications := applications db @ [a]\<rparr>) j u =
     applications_of db j u @ (if app_jobId a = j \<and> app_applicantId a = u then [a] else [])"
  by (simp add: applications_of_def)

lemma applyToJob_cases:
  "(\<exists>e. applyToJob db jobId userId data now = (Inl e, db))
   \<or> (findUnique_application db jobId userId = None
        \<and> (\<exists>a. app_jobId a = jobId \<and> app_applicantId a = userId \<and> app_status a = ''PENDING''
               \<and> applyToJob db jobId userId data now
                   = (Inr a, db\<lparr>applications := applications db @ [a]\<rparr>)))"
  by (simp add: applyToJob_def Let_def split: option.split)

lemma expire_data_not_match: "\<not> expire_where now' (expire_data now j)"
  by (simp add: expire_where_def expire_data_def)

lemma expire_where_later:
  "expire_where now' (if expire_where now j then expire_data now j else j)
     = (job_status j = PUBLISHED \<and> gt (job_expiresAt j) now \<and> lte (job_expiresAt j) now')"
  by (auto simp: expire_where_def expire_data_def gt_def lte_def split: option.splits)

lemma expire_data_changes: "expire_where now j \<Longrightarrow> expire_data now j \<noteq> j"
proof
  assume m: "expire_where now j" and e: "expire_data now j = j"
  from e have "job_status (expire_data now j) = job_status j" by simp
  with m show False by (simp add: expire_where_def expire_data_def)
qed

lemma count_changed_rows:
  "length (filter (\<lambda>(j, j'). j' \<noteq> j)
            (zip xs (map (\<lambda>j. if expire_where now j then expire_data now j else j) xs)))
     = length (filter (expire_where now) xs)"
  by (induction xs) (auto simp: expire_data_changes)

lemma filter_expire_after:
  "filter (expire_where now)
     (map (\<lambda>j. if expire_where now j then expire_data now j else j) xs) = []"
  by (induction xs) (simp_all add: expire_data_not_match)

lemma map_expire_twice:
  "map (\<lambda>j. if expire_where now j then expire_data now j else j)
     (map (\<lambda>j. if expire_where now j then expire_data now j else j) xs)
   = map (\<lambda>j. if expire_where now j then expire_data now j else j) xs"
  by (induction xs) (simp_all add: expire_data_not_match)

subsection \<open>Listing: fetch and count\<close>

text \<open>
  \<^verbatim>\<open>searchJobs\<close> hands one where object to \<^verbatim>\<open>findMany\<close> and to \<^verbatim>\<open>count\<close>: the total it
  returns is the number of rows the page's own predicate admits, whatever the filters.
\<close>

lemma searchJobs_total_counts_page_predicate:
  "\<exists>w. w = searchJobs_where filters now
     \<and> fst (searchJobs order db filters sk lim now)
         = take lim (drop sk (order (searchJobs_orderBy filters) (filter (eval_where db w) (jobs db))))
     \<and> snd (searchJobs order db filters sk lim now) = length (filter (eval_where db w) (jobs db))"
  by (simp add: searchJobs_def findMany_def count_jobs_def Let_def)

text \<open>
  \<^verbatim>\<open>getAllJobs\<close> has the same property when its two \<^verbatim>\<open>new Date()\<close> expressions yield
  the same instant.
\<close>

lemma getAllJobs_one_instant:
  "now_count = now_fetch \<Longrightarrow>
   snd (getAllJobs order db sk lim sort_arg now_fetch now_count)
     = count_jobs db (baseline_where now_fetch)
   \<and> fst (getAllJobs order db sk lim sort_arg now_fetch now_count)
     = findMany order db sk lim (baseline_where now_fetch) sort_arg"
  by (simp add: getAllJobs_def)

text \<open>
  Claim C1. The paged fetch and the count of \<^verbatim>\<open>getAllJobs\<close> and \<^verbatim>\<open>searchJobs\<close> use the
  identical predicate with one instant \<open>now\<close>, so the total is the count of the predicate
  that produced the page. \<^verbatim>\<open>searchJobs\<close> does so (lemma
  \<open>searchJobs_total_counts_page_predicate\<close>). \<^verbatim>\<open>getAllJobs\<close> does not: it reads the clock
  once for the fetch and once more for the count. With job \<open>j1\<close> expiring at instant
  1001, a fetch at instant 1000 and a count at instant 1001, the page holds \<open>j1\<close> and
  the total is 0, while the predicate of the page admits one row.
\<close>

theorem C1_getAllJobs_counts_at_a_later_instant:
  "getAllJobs table_order db_j1 0 10 (OrderBy_field ''createdAt'' desc) 1000 1001 = ([job_j1], 0)
   \<and> count_jobs db_j1 (baseline_where 1000) = 1"
  by code_simp

subsection \<open>The where clause of \<^verbatim>\<open>searchJobs\<close>: location and salary\<close>

text \<open>
  Claim C2. For every filter request that supplies \<^verbatim>\<open>isRemote\<close> as true together with a
  location, the where clause \<^verbatim>\<open>searchJobs\<close> builds has no \<^verbatim>\<open>location\<close> key, and
  whether it admits a job does not depend on the job's location: replacing the
  location of a job by any other value, or by null, leaves the verdict as it is.
\<close>

theorem C2_remote_request_has_no_location_clause:
  assumes "isRemote filters = Some True"
  shows "w_location (searchJobs_where filters now) = None
         \<and> eval_where db (searchJobs_where filters now) (j\<lparr>job_location := loc\<rparr>)
             = eval_where db (searchJobs_where filters now) j"
proof -
  have none: "w_location (searchJobs_where filters now) = None"
    using assms by (simp add: sw_location)
  from eval_where_no_location [OF none] none show ?thesis by simp
qed

text \<open>
  The request \<open>all_filters\<close> asks for remote jobs in Paris; job \<open>j2\<close> is in Berlin and
  is admitted, and so is the same job with no location at all.
\<close>

theorem C2_witness:
  "isRemote all_filters = Some True
   \<and> location all_filters = Some ''Paris''
   \<and> w_location (searchJobs_where all_filters 1000) = None
   \<and> job_location job_j2 = Some ''Berlin''
   \<and> eval_where db_two (searchJobs_where all_filters 1000) job_j2
   \<and> eval_where db_two (searchJobs_where all_filters 1000) (job_j2\<lparr>job_location := None\<rparr>)"
proof -
  have r: "isRemote all_filters = Some True" by (simp add: all_filters_def)
  have l: "location all_filters = Some ''Paris''" by (simp add: all_filters_def)
  have b: "job_location job_j2 = Some ''Berlin''" by (simp add: job_j2_def job_j1_def)
  have e: "eval_where db_two (searchJobs_where all_filters 1000) job_j2" by code_simp
  from C2_remote_request_has_no_location_clause
         [OF r, where now = 1000 and db = db_two and j = job_j2 and loc = None] r l b e
  show ?thesis by simp
qed

text \<open>
  Claim C3 as stated fails for a requested bound of zero. The request
  \<^verbatim>\<open>{ salaryMin: 0 }\<close> admits job \<open>j1\<close>, which has neither salary figure, so neither
  \<^verbatim>\<open>salaryMin >= 0\<close> nor \<^verbatim>\<open>salaryMax >= 0\<close> holds of it; and the request
  \<^verbatim>\<open>{ salaryMax: 0 }\<close> admits job \<open>j2\<close>, whose maximum salary is 6000.
\<close>

theorem C3_counterexample:
  "salaryMin (no_filters\<lparr>salaryMin := Some 0\<rparr>) = Some 0
   \<and> eval_where db_j1 (searchJobs_where (no_filters\<lparr>salaryMin := Some 0\<rparr>) 1000) job_j1
   \<and> \<not> (gte (job_salaryMin job_j1) 0 \<or> gte (job_salaryMax job_j1) 0)
   \<and> salaryMax (no_filters\<lparr>salaryMax := Some 0\<rparr>) = Some 0
   \<and> eval_where db_two (searchJobs_where (no_filters\<lparr>salaryMax := Some 0\<rparr>) 1000) job_j2
   \<and> \<not> lte (job_salaryMax job_j2) 0"
  by code_simp

text \<open>
  Claim C3, amended. For every filter request whose \<^verbatim>\<open>salaryMin\<close> is a number other
  than zero, the where clause admits a job if and only if the clause built from the
  same request without salary bounds admits it and the job's own \<^verbatim>\<open>salaryMin\<close> or its
  own \<^verbatim>\<open>salaryMax\<close> is at least the requested \<^verbatim>\<open>salaryMin\<close> (a disjunction; a null
  figure satisfies neither side). A \<^verbatim>\<open>salaryMax\<close> other than zero alone adds just the
  clause that the job's \<^verbatim>\<open>salaryMax\<close> is at most the requested one, and both together
  add both clauses in conjunction.
\<close>

theorem C3_salary_clauses:
  "(m \<noteq> 0 \<longrightarrow>
      eval_where db (searchJobs_where (f\<lparr>salaryMin := Some m, salaryMax := None\<rparr>) now) j
      = (eval_where db (searchJobs_where (f\<lparr>salaryMin := None, salaryMax := None\<rparr>) now) j
         \<and> (gte (job_salaryMin j) m \<or> gte (job_salaryMax j) m)))
   \<and> (M \<noteq> 0 \<longrightarrow>
      eval_where db (searchJobs_where (f\<lparr>salaryMin := None, salaryMax := Some M\<rparr>) now) j
      = (eval_where db (searchJobs_where (f\<lparr>salaryMin := None, salaryMax := None\<rparr>) now) j
         \<and> lte (job_salaryMax j) M))
   \<and> (m \<noteq> 0 \<and> M \<noteq> 0 \<longrightarrow>
      eval_where db (searchJobs_where (f\<lparr>salaryMin := Some m, salaryMax := Some M\<rparr>) now) j
      = (eval_where db (searchJobs_where (f\<lparr>salaryMin := None, salaryMax := None\<rparr>) now) j
         \<and> (gte (job_salaryMin j) m \<or> gte (job_salaryMax j) m)
         \<and> lte (job_salaryMax j) M))"
proof -
  have st: "search_term (f\<lparr>salaryMin := a, salaryMax := b\<rparr>) = search_term f" for a b
    by (simp add: search_term_def)
  show ?thesis
    by (simp only: eval_where_searchJobs st) (auto simp: truthy_num_def)
qed

text \<open>
  Job \<open>j2\<close> pays 3000 to 6000: a requested minimum of 5000 admits it (its maximum
  reaches 5000), one of 7000 does not; a requested maximum of 7000 admits it, and the
  pair 5000, 5000 does not.
\<close>

theorem C3_witness:
  "(5000::int) \<noteq> 0 \<and> (7000::int) \<noteq> 0
   \<and> job_salaryMin job_j2 = Some 3000 \<and> job_salaryMax job_j2 = Some 6000
   \<and> eval_where db_two (searchJobs_where (no_filters\<lparr>salaryMin := Some 5000, salaryMax := None\<rparr>) 1000) job_j2
   \<and> \<not> eval_where db_two (searchJobs_where (no_filters\<lparr>salaryMin := Some 7000, salaryMax := None\<rparr>) 1000) job_j2
   \<and> eval_where db_two (searchJobs_where (no_filters\<lparr>salaryMin := None, salaryMax := Some 7000\<rparr>) 1000) job_j2
   \<and> \<not> eval_where db_two (searchJobs_where (no_filters\<lparr>salaryMin := Some 5000, salaryMax := Some 5000\<rparr>) 1000) job_j2"
proof -
  have base: "eval_where db_two (searchJobs_where (no_filters\<lparr>salaryMin := None, salaryMax := None\<rparr>) 1000) job_j2"
    by code_simp
  have sal: "job_salaryMin job_j2 = Some 3000 \<and> job_salaryMax job_j2 = Some 6000"
    by (simp add: job_j2_def job_j1_def)
  from C3_salary_clauses [where m = 5000 and M = 7000 and db = db_two and f = no_filters
                            and now = 1000 and j = job_j2]
       C3_salary_clauses [where m = 7000 and M = 5000 and db = db_two and f = no_filters
                            and now = 1000 and j = job_j2]
       C3_salary_clauses [where m = 5000 and M = 5000 and db = db_two and f = no_filters
                            and now = 1000 and j = job_j2]
       base sal
  show ?thesis by (simp add: gte_def lte_def)
qed

subsection \<open>Pagination parameters\<close>

text \<open>
  Claim C4 as stated fails for a negative page: \<^verbatim>\<open>parseInt("-3") || 1\<close> is \<open>-3\<close>, which
  is returned as the page, and with the default limit of 10 the skip is \<open>-40\<close>.
\<close>

theorem C4_counterexample:
  "page (getPaginationParams \<lparr>query_page = Some ''-3'', query_limit = None\<rparr>) = - 3
   \<and> skip (getPaginationParams \<lparr>query_page = Some ''-3'', query_limit = None\<rparr>) = - 40"
  by code_simp

text \<open>
  Claim C4, amended. For every request: the limit is at most 50, and a requested limit
  above 50 (1000, say) becomes 50; an absent limit becomes 10; an absent page becomes
  1; a page of 0 becomes 1; any other page that parses, a negative one too, is
  returned as it is; and when neither the page nor the limit is negative, the page is
  at least 1 and the skip is not negative.
\<close>

theorem C4_pagination:
  "limit (getPaginationParams q) \<le> 50
   \<and> (\<forall>n. parseInt (query_limit q) = Some n \<and> 50 < n \<longrightarrow> limit (getPaginationParams q) = 50)
   \<and> (query_limit q = None \<longrightarrow> limit (getPaginationParams q) = 10)
   \<and> (query_page q = None \<longrightarrow> page (getPaginationParams q) = 1)
   \<and> (parseInt (query_page q) = Some 0 \<longrightarrow> page (getPaginationParams q) = 1)
   \<and> (\<forall>p. parseInt (query_page q) = Some p \<and> p \<noteq> 0 \<longrightarrow> page (getPaginationParams q) = p)
   \<and> ((case parseInt (query_page q) of None \<Rightarrow> True | Some p \<Rightarrow> 0 \<le> p)
        \<and> (case parseInt (query_limit q) of None \<Rightarrow> True | Some n \<Rightarrow> 0 \<le> n)
       \<longrightarrow> 1 \<le> page (getPaginationParams q) \<and> 0 \<le> skip (getPaginationParams q))"
proof -
  have none: "parseInt None = None" by (simp add: parseInt_def)
  have l50: "limit (getPaginationParams q) \<le> 50"
    by (simp add: getPaginationParams_def Let_def)
  have big: "\<forall>n. parseInt (query_limit q) = Some n \<and> 50 < n \<longrightarrow> limit (getPaginationParams q) = 50"
    by (simp add: getPaginationParams_def Let_def or_default_def)
  have labs: "query_limit q = None \<longrightarrow> limit (getPaginationParams q) = 10"
    by (simp add: getPaginationParams_def Let_def or_default_def none)
  have pabs: "query_page q = None \<longrightarrow> page (getPaginationParams q) = 1"
    by (simp add: getPaginationParams_def Let_def or_default_def none)
  have p0: "parseInt (query_page q) = Some 0 \<longrightarrow> page (getPaginationParams q) = 1"
    by (simp add: getPaginationParams_def Let_def or_default_def)
  have pp: "\<forall>p. parseInt (query_page q) = Some p \<and> p \<noteq> 0 \<longrightarrow> page (getPaginationParams q) = p"
    by (simp add: getPaginationParams_def Let_def or_default_def)
  have nonneg: "(case parseInt (query_page q) of None \<Rightarrow> True | Some p \<Rightarrow> 0 \<le> p)
        \<and> (case parseInt (query_limit q) of None \<Rightarrow> True | Some n \<Rightarrow> 0 \<le> n)
       \<longrightarrow> 1 \<le> page (getPaginationParams q) \<and> 0 \<le> skip (getPaginationParams q)"
    by (auto simp: getPaginationParams_def Let_def or_default_def split: option.splits)
  from l50 big labs pabs p0 pp nonneg show ?thesis by blast
qed

text \<open>
  \<^verbatim>\<open>?page=0&limit=1000\<close> gives page 1, limit 50, skip 0; no parameters give page 1,
  limit 10, skip 0; \<^verbatim>\<open>?page=3&limit=20\<close> gives skip 40.
\<close>

theorem C4_witness:
  "limit (getPaginationParams \<lparr>query_page = Some ''0'', query_limit = Some ''1000''\<rparr>) = 50
   \<and> page (getPaginationParams \<lparr>query_page = Some ''0'', query_limit = Some ''1000''\<rparr>) = 1
   \<and> skip (getPaginationParams \<lparr>query_page = Some ''0'', query_limit = Some ''1000''\<rparr>) = 0
   \<and> getPaginationParams \<lparr>query_page = None, query_limit = None\<rparr>
       = \<lparr>page = 1, limit = 10, skip = 0\<rparr>
   \<and> getPaginationParams \<lparr>query_page = Some ''3'', query_limit = Some ''20''\<rparr>
       = \<lparr>page = 3, limit = 20, skip = 40\<rparr>"
proof -
  let ?q = "\<lparr>query_page = Some ''0'', query_limit = Some ''1000''\<rparr>"
  let ?e = "\<lparr>query_page = None, query_limit = None\<rparr>"
  let ?r = "\<lparr>query_page = Some ''3'', query_limit = Some ''20''\<rparr>"
  have a: "parseInt (query_page ?q) = Some 0" by code_simp
  have b: "parseInt (query_limit ?q) = Some 1000" by code_simp
  have c: "parseInt (query_page ?r) = Some 3" by code_simp
  have d: "parseInt (query_limit ?r) = Some 20" by code_simp
  have e: "limit (getPaginationParams ?r) = 20" by code_simp
  have s: "skip (getPaginationParams ?q) = 0 \<and> skip (getPaginationParams ?e) = 0 \<and>
           skip (getPaginationParams ?r) = 40" by code_simp
  from C4_pagination [of ?q] C4_pagination [of ?e] C4_pagination [of ?r] a b c d e s
  show ?thesis by (cases "getPaginationParams ?e"; cases "getPaginationParams ?r"; simp)
qed

subsection \<open>The sort clause\<close>

text \<open>
  The sort clause of \<^verbatim>\<open>src/services/job.service.ts\<close>: \<^verbatim>\<open>salaryMax\<close> for
  \<^verbatim>\<open>sortBy = "salary"\<close>, the company's name for \<^verbatim>\<open>"company"\<close>, otherwise the
  attribute named by \<^verbatim>\<open>sortBy\<close>, which is \<^verbatim>\<open>createdAt\<close> when absent; the direction is
  the requested one and \<^verbatim>\<open>desc\<close> when absent. The one name that gives no directive
  is \<^verbatim>\<open>__proto__\<close>.
\<close>

lemma searchJobs_orderBy_cases:
  "searchJobs_orderBy filters =
     (let direction = (case sortOrder filters of None \<Rightarrow> desc | Some d \<Rightarrow> d) in
      if sortBy filters = Some ''salary'' then OrderBy_field ''salaryMax'' direction
      else if sortBy filters = Some ''company'' then OrderBy_company_name direction
      else if sortBy filters = Some ''__proto__'' then OrderBy_empty
      else OrderBy_field (case sortBy filters of None \<Rightarrow> ''createdAt'' | Some s \<Rightarrow> s) direction)"
  by (simp add: searchJobs_orderBy_def assign_key_def sortBy_or_default_def
      sortOrder_or_default_def Let_def split: option.split)

text \<open>
  Claim C5. For \<^verbatim>\<open>sortBy = "salary"\<close> the ordering directive is the single key
  \<^verbatim>\<open>salaryMax\<close> with the requested direction. The \<^verbatim>\<open>searchJobs\<close> of
  \<^verbatim>\<open>src/services/job.service.ts\<close> builds that directive (lemma
  \<open>searchJobs_orderBy_cases\<close>); the second copy of \<^verbatim>\<open>searchJobs\<close> in the repository
  orders by the company's name instead, as the request \<^verbatim>\<open>sortBy=salary&sortOrder=asc\<close>
  shows.
\<close>

theorem C5_second_copy_orders_salary_by_company_name:
  "searchJobs_orderBy_part_000 (no_filters\<lparr>sortBy := Some ''salary'', sortOrder := Some asc\<rparr>)
     = OrderBy_company_name asc
   \<and> searchJobs_orderBy (no_filters\<lparr>sortBy := Some ''salary'', sortOrder := Some asc\<rparr>)
     = OrderBy_field ''salaryMax'' asc"
  by code_simp

subsection \<open>The baseline of \<^verbatim>\<open>searchJobs\<close>\<close>

text \<open>
  Claim C6. For every filter request, the where clause \<^verbatim>\<open>searchJobs\<close> builds still
  carries the two baseline keys as written in the object literal,
  \<^verbatim>\<open>status: "PUBLISHED"\<close> and \<^verbatim>\<open>OR: [{ expiresAt: null }, { expiresAt: { gt: now } }]\<close>,
  and every job it admits is published and has no expiry or one later than \<open>now\<close>.
\<close>

theorem C6_baseline_is_never_weakened:
  "w_status (searchJobs_where filters now) = Some PUBLISHED
   \<and> w_OR (searchJobs_where filters now) = Some [ExpiresAt_null, ExpiresAt_gt now]
   \<and> (eval_where db (searchJobs_where filters now) j \<longrightarrow>
        job_status j = PUBLISHED
        \<and> (case job_expiresAt j of None \<Rightarrow> True | Some e \<Rightarrow> now < e))"
  by (simp add: sw_status sw_OR eval_where_searchJobs gt_def split: option.split)

text \<open>
  With every filter supplied, job \<open>j2\<close> (published, no expiry) is admitted; with none,
  job \<open>j1\<close> (published, expiring at 1001) is admitted at instant 1000 and no longer at
  instant 1001.
\<close>

theorem C6_witness:
  "eval_where db_two (searchJobs_where all_filters 1000) job_j2
   \<and> job_status job_j2 = PUBLISHED \<and> job_expiresAt job_j2 = None
   \<and> eval_where db_j1 (searchJobs_where no_filters 1000) job_j1
   \<and> job_status job_j1 = PUBLISHED \<and> job_expiresAt job_j1 = Some 1001
   \<and> \<not> eval_where db_j1 (searchJobs_where no_filters 1001) job_j1"
proof -
  have a: "eval_where db_two (searchJobs_where all_filters 1000) job_j2" by code_simp
  have b: "eval_where db_j1 (searchJobs_where no_filters 1000) job_j1" by code_simp
  have c: "job_expiresAt job_j2 = None \<and> job_expiresAt job_j1 = Some 1001"
    by (simp add: job_j2_def job_j1_def)
  from C6_baseline_is_never_weakened [of all_filters 1000 db_two job_j2]
       C6_baseline_is_never_weakened [of no_filters 1000 db_j1 job_j1]
       C6_baseline_is_never_weakened [of no_filters 1001 db_j1 job_j1]
       a b c
  show ?thesis by auto
qed

subsection \<open>\<^verbatim>\<open>applyToJob\<close>, \<^verbatim>\<open>deleteJob\<close> and \<^verbatim>\<open>expireOldJobs\<close>\<close>

text \<open>
  Claim C7 as stated fails in the kind of error: once the employer has closed job
  \<open>j1\<close>, a second application of \<open>u1\<close> to it is refused by the status check, with
  status code 400, before the duplicate check is reached.
\<close>

theorem C7_counterexample:
  "applications_of db_closed ''j1'' ''u1'' = [application_u1_j1]
   \<and> applyToJob db_closed ''j1'' ''u1'' no_data 1000
       = (Inl (AppError ''This job is not accepting applications'' 400), db_closed)"
  by code_simp

text \<open>
  Claim C7, amended. When an application of the applicant for the job exists, a
  further \<^verbatim>\<open>applyToJob\<close> by the same applicant fails and leaves the store as it was.
  The error is that of the first check that fails, in the order of the source: 404
  ``Job not found'' when the job no longer exists; 400 ``This job is not accepting
  applications'' when it is not published; 400 ``This job posting has expired'' when
  its expiry is before \<open>now\<close>; 403 ``Only job seekers can apply to jobs'' when the user
  does not exist or is not a job seeker; and the Conflict, 409 ``You have already
  applied to this job'', when all of these checks pass. No call of \<^verbatim>\<open>applyToJob\<close>
  takes any pair of a job and an applicant from at most one application to more than
  one.
\<close>

theorem C7_existing_application_blocks_a_second:
  "(applications_of db jobId userId \<noteq> [] \<longrightarrow>
      (\<exists>e. applyToJob db jobId userId data now = (Inl e, db))
      \<and> (findUnique_job db jobId = None
            \<longrightarrow> applyToJob db jobId userId data now
                  = (Inl (AppError ''Job not found'' 404), db))
      \<and> (\<forall>job.
            findUnique_job db jobId = Some job \<and> job_status job \<noteq> PUBLISHED
            \<longrightarrow> applyToJob db jobId userId data now
                  = (Inl (AppError ''This job is not accepting applications'' 400), db))
      \<and> (\<forall>job e.
            findUnique_job db jobId = Some job \<and> job_status job = PUBLISHED
            \<and> job_expiresAt job = Some e \<and> e < now
            \<longrightarrow> applyToJob db jobId userId data now
                  = (Inl (AppError ''This job posting has expired'' 400), db))
      \<and> (\<forall>job.
            findUnique_job db jobId = Some job \<and> job_status job = PUBLISHED
            \<and> (case job_expiresAt job of None \<Rightarrow> True | Some e \<Rightarrow> now \<le> e)
            \<and> findUnique_user db userId = None
            \<longrightarrow> applyToJob db jobId userId data now
                  = (Inl (AppError ''Only job seekers can apply to jobs'' 403), db))
      \<and> (\<forall>job user.
            findUnique_job db jobId = Some job \<and> job_status job = PUBLISHED
            \<and> (case job_expiresAt job of None \<Rightarrow> True | Some e \<Rightarrow> now \<le> e)
            \<and> findUnique_user db userId = Some user \<and> user_role user \<noteq> JOB_SEEKER
            \<longrightarrow> applyToJob db jobId userId data now
                  = (Inl (AppError ''Only job seekers can apply to jobs'' 403), db))
      \<and> (\<forall>job user.
            findUnique_job db jobId = Some job \<and> job_status job = PUBLISHED
            \<and> (case job_expiresAt job of None \<Rightarrow> True | Some e \<Rightarrow> now \<le> e)
            \<and> findUnique_user db userId = Some user \<and> user_role user = JOB_SEEKER
            \<longrightarrow> applyToJob db jobId userId data now
                  = (Inl (AppError ''You have already applied to this job'' 409), db)))
   \<and> (length (applications_of db j u) \<le> 1 \<longrightarrow>
        length (applications_of (snd (applyToJob db jobId userId data now)) j u) \<le> 1)"
proof -
  have fails: "\<exists>e. applyToJob db jobId userId data now = (Inl e, db)"
    if "applications_of db jobId userId \<noteq> []"
    using applyToJob_cases [of db jobId userId data now] that
    by (auto simp: findUnique_application_None)
  have gone: "applyToJob db jobId userId data now = (Inl (AppError ''Job not found'' 404), db)"
    if "findUnique_job db jobId = None"
    using that by (simp add: applyToJob_def)
  have closed: "applyToJob db jobId userId data now
                  = (Inl (AppError ''This job is not accepting applications'' 400), db)"
    if "findUnique_job db jobId = Some job" "job_status job \<noteq> PUBLISHED" for job
    using that by (simp add: applyToJob_def)
  have expired: "applyToJob db jobId userId data now
                  = (Inl (AppError ''This job posting has expired'' 400), db)"
    if "findUnique_job db jobId = Some job" "job_status job = PUBLISHED"
       "job_expiresAt job = Some e" "e < now" for job e
    using that by (simp add: applyToJob_def)
  have nouser: "applyToJob db jobId userId data now
                  = (Inl (AppError ''Only job seekers can apply to jobs'' 403), db)"
    if "findUnique_job db jobId = Some job" "job_status job = PUBLISHED"
       "case job_expiresAt job of None \<Rightarrow> True | Some e \<Rightarrow> now \<le> e"
       "findUnique_user db userId = None" for job
    using that by (auto simp: applyToJob_def split: option.splits)
  have role: "applyToJob db jobId userId data now
                  = (Inl (AppError ''Only job seekers can apply to jobs'' 403), db)"
    if "findUnique_job db jobId = Some job" "job_status job = PUBLISHED"
       "case job_expiresAt job of None \<Rightarrow> True | Some e \<Rightarrow> now \<le> e"
       "findUnique_user db userId = Some user" "user_role user \<noteq> JOB_SEEKER" for job user
    using that by (auto simp: applyToJob_def split: option.splits)
  have conflict: "applyToJob db jobId userId data now
                  = (Inl (AppError ''You have already applied to this job'' 409), db)"
    if "applications_of db jobId userId \<noteq> []"
       "findUnique_job db jobId = Some job" "job_status job = PUBLISHED"
       "case job_expiresAt job of None \<Rightarrow> True | Some e \<Rightarrow> now \<le> e"
       "findUnique_user db userId = Some user" "user_role user = JOB_SEEKER"
    for job user
  proof -
    from that(1) obtain x where "findUnique_application db jobId userId = Some x"
      by (cases "findUnique_application db jobId userId")
         (simp_all add: findUnique_application_None)
    with that show ?thesis
      by (auto simp: applyToJob_def split: option.splits)
  qed
  have inv: "length (applications_of (snd (applyToJob db jobId userId data now)) j u) \<le> 1"
    if "length (applications_of db j u) \<le> 1"
    using applyToJob_cases [of db jobId userId data now] that
    by (auto simp: applications_of_append findUnique_application_None)
  from fails gone closed expired nouser role conflict inv show ?thesis by blast
qed

text \<open>
  The first application of \<open>u1\<close> to \<open>j1\<close> inserts one pending row; the second is
  refused with 409 and the store keeps that one row. With the same row in the store,
  the call is refused with 400 once the job is past its expiry, with 404 when the job
  is gone, and with 403 when the user is gone or has become an employer.
\<close>

theorem C7_witness:
  "applications_of db_applied ''j1'' ''u1'' = [application_u1_j1]
   \<and> applyToJob db_applied ''j1'' ''u1'' no_data 1000
       = (Inl (AppError ''You have already applied to this job'' 409), db_applied)
   \<and> applyToJob db_j1 ''j1'' ''u1'' no_data 1000 = (Inr application_u1_j1, db_applied)
   \<and> length (applications_of db_applied ''j1'' ''u1'') = 1
   \<and> applyToJob db_applied ''j1'' ''u1'' no_data 2000
       = (Inl (AppError ''This job posting has expired'' 400), db_applied)
   \<and> applyToJob (db_applied\<lparr>jobs := []\<rparr>) ''j1'' ''u1'' no_data 1000
       = (Inl (AppError ''Job not found'' 404), db_applied\<lparr>jobs := []\<rparr>)
   \<and> applyToJob (db_applied\<lparr>users := []\<rparr>) ''j1'' ''u1'' no_data 1000
       = (Inl (AppError ''Only job seekers can apply to jobs'' 403), db_applied\<lparr>users := []\<rparr>)
   \<and> applyToJob (db_applied\<lparr>users := [seeker_u1\<lparr>user_role := EMPLOYER\<rparr>]\<rparr>) ''j1'' ''u1''
         no_data 1000
       = (Inl (AppError ''Only job seekers can apply to jobs'' 403),
          db_applied\<lparr>users := [seeker_u1\<lparr>user_role := EMPLOYER\<rparr>]\<rparr>)"
proof -
  let ?nojob = "db_applied\<lparr>jobs := []\<rparr>"
  let ?nouser = "db_applied\<lparr>users := []\<rparr>"
  let ?employer = "db_applied\<lparr>users := [seeker_u1\<lparr>user_role := EMPLOYER\<rparr>]\<rparr>"
  have a: "applications_of db_applied ''j1'' ''u1'' = [application_u1_j1]
           \<and> applications_of ?nojob ''j1'' ''u1'' = [application_u1_j1]
           \<and> applications_of ?nouser ''j1'' ''u1'' = [application_u1_j1]
           \<and> applications_of ?employer ''j1'' ''u1'' = [application_u1_j1]" by code_simp
  have b: "findUnique_job db_applied ''j1'' = Some job_j1 \<and> job_status job_j1 = PUBLISHED
           \<and> job_expiresAt job_j1 = Some 1001
           \<and> findUnique_job ?nouser ''j1'' = Some job_j1
           \<and> findUnique_job ?employer ''j1'' = Some job_j1
           \<and> findUnique_job ?nojob ''j1'' = None" by code_simp
  have c: "findUnique_user db_applied ''u1'' = Some seeker_u1 \<and> user_role seeker_u1 = JOB_SEEKER
           \<and> findUnique_user ?nouser ''u1'' = None
           \<and> findUnique_user ?employer ''u1'' = Some (seeker_u1\<lparr>user_role := EMPLOYER\<rparr>)
           \<and> user_role (seeker_u1\<lparr>user_role := EMPLOYER\<rparr>) = EMPLOYER"
    by code_simp
  have d: "applyToJob db_j1 ''j1'' ''u1'' no_data 1000 = (Inr application_u1_j1, db_applied)"
    by code_simp
  have e: "applications_of db_j1 ''j1'' ''u1'' = []" by code_simp
  from C7_existing_application_blocks_a_second
         [where db = db_applied and jobId = "''j1''" and userId = "''u1''" and data = no_data
            and now = 1000 and j = "''j1''" and u = "''u1''"]
       C7_existing_application_blocks_a_second
         [where db = db_applied and jobId = "''j1''" and userId = "''u1''" and data = no_data
            and now = 2000 and j = "''j1''" and u = "''u1''"]
       C7_existing_application_blocks_a_second
         [where db = ?nojob and jobId = "''j1''" and userId = "''u1''" and data = no_data
            and now = 1000 and j = "''j1''" and u = "''u1''"]
       C7_existing_application_blocks_a_second
         [where db = ?nouser and jobId = "''j1''" and userId = "''u1''" and data = no_data
            and now = 1000 and j = "''j1''" and u = "''u1''"]
       C7_existing_application_blocks_a_second
         [where db = ?employer and jobId = "''j1''" and userId = "''u1''" and data = no_data
            and now = 1000 and j = "''j1''" and u = "''u1''"]
       C7_existing_application_blocks_a_second
         [where db = db_j1 and jobId = "''j1''" and userId = "''u1''" and data = no_data
            and now = 1000 and j = "''j1''" and u = "''u1''"]
       a b c d e
  show ?thesis by simp
qed

text \<open>
  Claim C8. For a job owned by the acting user, \<^verbatim>\<open>deleteJob\<close> fails with status code
  400 and leaves the store unchanged when the job has one or more applications; when
  it has none, \<^verbatim>\<open>deleteJob\<close> succeeds, the job is gone and so is every \<^verbatim>\<open>JobSkill\<close> row
  of it, while the other jobs, their skill rows, the applications and the users stay.
\<close>

theorem C8_deleteJob:
  assumes "findUnique_job db jobId = Some job" and "ownerId (job_company job) = userId"
  shows "(0 < count_applications db jobId \<longrightarrow>
            deleteJob db jobId userId
              = (Inl (AppError
                   ''Cannot delete job with existing applications. Close the job instead.'' 400),
                 db))
         \<and> (count_applications db jobId = 0 \<longrightarrow>
              fst (deleteJob db jobId userId) = Inr ''Job deleted successfully''
              \<and> findUnique_job (snd (deleteJob db jobId userId)) jobId = None
              \<and> filter (\<lambda>r. js_jobId r = jobId) (jobSkills (snd (deleteJob db jobId userId))) = []
              \<and> filter (\<lambda>j. job_id j \<noteq> jobId) (jobs (snd (deleteJob db jobId userId)))
                  = filter (\<lambda>j. job_id j \<noteq> jobId) (jobs db)
              \<and> filter (\<lambda>r. js_jobId r \<noteq> jobId) (jobSkills (snd (deleteJob db jobId userId)))
                  = filter (\<lambda>r. js_jobId r \<noteq> jobId) (jobSkills db)
              \<and> applications (snd (deleteJob db jobId userId)) = applications db
              \<and> users (snd (deleteJob db jobId userId)) = users db)"
  using assms
  by (simp add: deleteJob_def job_delete_def findUnique_job_def find_None_iff)

text \<open>
  The owner \<open>e1\<close> cannot delete \<open>j1\<close> once \<open>u1\<close> has applied; before that, the call
  removes \<open>j1\<close> and its one skill row.
\<close>

theorem C8_witness:
  "deleteJob db_applied ''j1'' ''e1''
     = (Inl (AppError ''Cannot delete job with existing applications. Close the job instead.'' 400),
        db_applied)
   \<and> count_applications db_applied ''j1'' = 1
   \<and> count_applications db_j1 ''j1'' = 0
   \<and> jobSkills db_j1 = [skill_j1_s1]
   \<and> deleteJob db_j1 ''j1'' ''e1''
     = (Inr ''Job deleted successfully'',
        \<lparr>jobs = [], users = [seeker_u1], applications = [], jobSkills = []\<rparr>)"
proof -
  have a: "findUnique_job db_applied ''j1'' = Some job_j1" by code_simp
  have b: "findUnique_job db_j1 ''j1'' = Some job_j1" by code_simp
  have o: "ownerId (job_company job_j1) = ''e1''" by code_simp
  have c: "count_applications db_applied ''j1'' = 1 \<and> count_applications db_j1 ''j1'' = 0"
    by code_simp
  have d: "deleteJob db_j1 ''j1'' ''e1''
     = (Inr ''Job deleted successfully'',
        \<lparr>jobs = [], users = [seeker_u1], applications = [], jobSkills = []\<rparr>)"
    by code_simp
  have s: "jobSkills db_j1 = [skill_j1_s1]" by (simp add: db_j1_def)
  from C8_deleteJob [OF a o] C8_deleteJob [OF b o] c d s show ?thesis by simp
qed


text \<open>
  Claim C9 as stated fails when the clock has advanced between the two calls: job
  \<open>j1\<close> expires at instant 1001, so a sweep at instant 1000 changes nothing and the
  sweep that follows at instant 1001 changes one row and returns 1.
\<close>

theorem C9_counterexample:
  "(1000::int) \<le> 1001
   \<and> fst (expireOldJobs db_j1 1000) = 0
   \<and> fst (expireOldJobs (snd (expireOldJobs db_j1 1000)) 1001) = 1
   \<and> map job_status (jobs (snd (expireOldJobs (snd (expireOldJobs db_j1 1000)) 1001))) = [EXPIRED]"
  by code_simp

text \<open>
  Claim C9, amended. \<^verbatim>\<open>expireOldJobs\<close> rewrites exactly the jobs that are published and
  have an expiry at or before \<open>now\<close>, setting their status to \<^verbatim>\<open>EXPIRED\<close> (and their
  \<^verbatim>\<open>updatedAt\<close> to \<open>now\<close>); every other row and every other table stays; it returns
  the number of rows it changed. A second call at the same instant changes nothing
  and returns 0. A second call at an instant \<open>now'\<close> returns the number of jobs that
  were published with an expiry after \<open>now\<close> and at or before \<open>now'\<close>.
\<close>

theorem C9_expireOldJobs:
  "list_all2 (\<lambda>j j'. j' = (if job_status j = PUBLISHED \<and> lte (job_expiresAt j) now
                            then j\<lparr>job_status := EXPIRED, job_updatedAt := now\<rparr> else j))
      (jobs db) (jobs (snd (expireOldJobs db now)))
   \<and> users (snd (expireOldJobs db now)) = users db
   \<and> applications (snd (expireOldJobs db now)) = applications db
   \<and> jobSkills (snd (expireOldJobs db now)) = jobSkills db
   \<and> fst (expireOldJobs db now)
       = length (filter (\<lambda>(j, j'). j' \<noteq> j) (zip (jobs db) (jobs (snd (expireOldJobs db now)))))
   \<and> expireOldJobs (snd (expireOldJobs db now)) now = (0, snd (expireOldJobs db now))
   \<and> fst (expireOldJobs (snd (expireOldJobs db now)) now')
       = length (filter (\<lambda>j. job_status j = PUBLISHED \<and> gt (job_expiresAt j) now
                              \<and> lte (job_expiresAt j) now') (jobs db))"
proof -
  let ?f = "\<lambda>j. if expire_where now j then expire_data now j else j"
  have rows: "list_all2 (\<lambda>j j'. j' = (if job_status j = PUBLISHED \<and> lte (job_expiresAt j) now
                            then j\<lparr>job_status := EXPIRED, job_updatedAt := now\<rparr> else j))
      (jobs db) (jobs (snd (expireOldJobs db now)))"
    by (simp add: expireOldJobs_def list_all2_map2 expire_where_def expire_data_def
        list_all2_same)
  have frame: "users (snd (expireOldJobs db now)) = users db
     \<and> applications (snd (expireOldJobs db now)) = applications db
     \<and> jobSkills (snd (expireOldJobs db now)) = jobSkills db"
    by (simp add: expireOldJobs_def)
  have cnt: "fst (expireOldJobs db now)
       = length (filter (\<lambda>(j, j'). j' \<noteq> j) (zip (jobs db) (jobs (snd (expireOldJobs db now)))))"
    by (simp add: expireOldJobs_def count_changed_rows)
  have later: "fst (expireOldJobs (snd (expireOldJobs db now)) t)
       = length (filter (\<lambda>j. job_status j = PUBLISHED \<and> gt (job_expiresAt j) now
                              \<and> lte (job_expiresAt j) t) (jobs db))" for t
    by (simp add: expireOldJobs_def o_def expire_where_later)
  have nomatch: "filter (expire_where now) (map ?f (jobs db)) = []"
    by (rule filter_expire_after)
  have same: "map ?f (map ?f (jobs db)) = map ?f (jobs db)"
    by (rule map_expire_twice)
  have idem: "expireOldJobs (snd (expireOldJobs db now)) now = (0, snd (expireOldJobs db now))"
    using nomatch same by (simp add: expireOldJobs_def)
  from rows frame cnt idem later [of now'] show ?thesis by blast
qed

text \<open>
  A sweep at instant 1001 expires \<open>j1\<close> and returns 1; a second sweep at 1001 returns
  0; after a sweep at 1000 the sweep at 1001 still finds \<open>j1\<close>.
\<close>

theorem C9_witness:
  "expireOldJobs db_j1 1001
     = (1, db_j1\<lparr>jobs := [job_j1\<lparr>job_status := EXPIRED, job_updatedAt := 1001\<rparr>]\<rparr>)
   \<and> fst (expireOldJobs (snd (expireOldJobs db_j1 1001)) 1001) = 0
   \<and> fst (expireOldJobs (snd (expireOldJobs db_j1 1000)) 1001) = 1"
proof -
  have a: "expireOldJobs db_j1 1001
     = (1, db_j1\<lparr>jobs := [job_j1\<lparr>job_status := EXPIRED, job_updatedAt := 1001\<rparr>]\<rparr>)"
    by code_simp
  have b: "length (filter (\<lambda>j. job_status j = PUBLISHED \<and> gt (job_expiresAt j) 1000
                              \<and> lte (job_expiresAt j) 1001) (jobs db_j1)) = 1"
    by code_simp
  from C9_expireOldJobs [of 1001 db_j1 1001] C9_expireOldJobs [of 1000 db_j1 1001] a b
  show ?thesis by simp
qed

subsection \<open>A salary bound of zero\<close>

text \<open>
  Claim C10. For every filter request whose \<^verbatim>\<open>salaryMin\<close> is 0, \<^verbatim>\<open>searchJobs\<close> builds
  exactly the where clause of the same request without \<^verbatim>\<open>salaryMin\<close>, and likewise
  for a \<^verbatim>\<open>salaryMax\<close> of 0: a requested salary bound of zero is ignored.
\<close>

theorem C10_zero_salary_bound_is_ignored:
  "searchJobs_where (filters\<lparr>salaryMin := Some 0\<rparr>) now
     = searchJobs_where (filters\<lparr>salaryMin := None\<rparr>) now
   \<and> searchJobs_where (filters\<lparr>salaryMax := Some 0\<rparr>) now
     = searchJobs_where (filters\<lparr>salaryMax := None\<rparr>) now"
  by (simp only: sw_salary_zero_min sw_salary_zero_max)

text \<open>
  The request \<^verbatim>\<open>{ salaryMax: 0 }\<close> compiles to the bare baseline, with no \<^verbatim>\<open>AND\<close> key;
  \<open>all_filters\<close> with \<^verbatim>\<open>salaryMin: 0\<close> keeps the search clause and the upper bound only.
\<close>

theorem C10_witness:
  "searchJobs_where (no_filters\<lparr>salaryMax := Some 0\<rparr>) 1000 = baseline_where 1000
   \<and> w_AND (searchJobs_where (no_filters\<lparr>salaryMax := Some 0\<rparr>) 1000) = None
   \<and> w_AND (searchJobs_where (all_filters\<lparr>salaryMin := Some 0\<rparr>) 1000)
       = Some [Or [Title_contains ''engineer'', Description_contains ''engineer'',
                   Requirements_contains ''engineer'', Responsibilities_contains ''engineer'',
                   Company_name_contains ''engineer''],
               SalaryMax_lte 9000]"
proof -
  have a: "searchJobs_where (no_filters\<lparr>salaryMax := None\<rparr>) 1000 = baseline_where 1000"
    by code_simp
  have b: "w_AND (searchJobs_where (all_filters\<lparr>salaryMin := None\<rparr>) 1000)
       = Some [Or [Title_contains ''engineer'', Description_contains ''engineer'',
                   Requirements_contains ''engineer'', Responsibilities_contains ''engineer'',
                   Company_name_contains ''engineer''],
               SalaryMax_lte 9000]"
    by code_simp
  have c: "w_AND (baseline_where 1000) = None" by (simp add: baseline_where_def)
  from C10_zero_salary_bound_is_ignored [of no_filters 1000]
       C10_zero_salary_bound_is_ignored [of all_filters 1000] a b c
  show ?thesis by simp
qed

end
